theory Spec2Isabelle
  imports Complex_Main "HOL-Library.Sublist" "HOL-Library.AList"
begin

section \<open>HyperReplay: the account reconstructor and the ADL extractor\<close>

text \<open>
  The two scripts of the repository are embedded from the point where their inputs have
  been read: \<open>scripts/replay_real_time_accounts.py\<close> from the dictionary
  \<open>account_states\<close> and the list \<open>all_events\<close>, and
  \<open>scripts/extract_full_12min_adl.py\<close> from the decoded lines of the fills log.
  Python floats are modelled as reals (rounding, infinities and NaN are not modelled),
  Python ints as \<open>int\<close>, strings as \<open>string\<close>, the dictionaries keyed by account or
  instrument as maps, and the per-account \<open>positions\<close> dictionary, whose iteration order
  the unrealized-PnL loop follows, as an association list in insertion order.
\<close>

subsection \<open>Errors and checked arithmetic\<close>

datatype error = ZeroDivisionError | TypeError | KeyError

text \<open>Python's \<open>/\<close> on floats raises \<open>ZeroDivisionError\<close> on a zero divisor.\<close>

definition py_div :: "real \<Rightarrow> real \<Rightarrow> error + real" where
  "py_div a b = (if b = 0 then Inl ZeroDivisionError else Inr (a / b))"

text \<open>Python's \<open>needle in haystack\<close> on strings.\<close>

fun str_in :: "string \<Rightarrow> string \<Rightarrow> bool" where
  "str_in needle [] = (needle = [])"
| "str_in needle (c # cs) = (prefix needle (c # cs) \<or> str_in needle cs)"

subsection \<open>Data model of the reconstructor\<close>

text \<open>
  A position as both creation sites of the script build it. \<open>entry_price\<close> is \<open>None\<close>
  for a snapshot position whose JSON value is null (the script tests
  \<open>entry_price is None\<close>).
\<close>

record position =
  size_pos :: real
  entry_price :: "real option"
  notional :: real

record account_state =
  account_value :: real
  positions :: "(string \<times> position) list"
  snapshot_time :: int

text \<open>
  The event dictionaries appended to \<open>all_events\<close>. \<open>liquidation_data\<close> holds the
  \<open>liquidatedUser\<close> of the fill's liquidation dictionary when there is one.
\<close>

record fill_event =
  coin :: string
  price :: real
  size_fill :: real
  side :: string
  direction :: string
  closedPnl :: real
  fee :: real
  startPosition :: real
  liquidation_data :: "string option"

datatype event_type =
    Fill fill_event
  | Funding string real
  | Deposit real
  | Withdrawal real
  | Transfer real

record event =
  time :: int
  user :: string
  payload :: event_type

record replay_state =
  working_states :: "string \<rightharpoonup> account_state"
  last_prices :: "string \<rightharpoonup> real"

subsection \<open>STEP 2: the analysis window\<close>

definition SNAPSHOT_TIME :: int where
  "SNAPSHOT_TIME = 1760126694218"

definition ADL_START_TIME :: int where
  "ADL_START_TIME = 1760130900000"

definition ADL_END_TIME :: int where
  "ADL_END_TIME = 1760131620000"

text \<open>\<open>all_events.sort(key=...)\<close> is a stable sort, as \<open>sort_key\<close> is.\<close>

definition events_in_window :: "event list \<Rightarrow> event list" where
  "events_in_window all_events =
     filter (\<lambda>e. SNAPSHOT_TIME \<le> time e \<and> time e \<le> ADL_END_TIME) (sort_key time all_events)"

subsection \<open>STEP 3: the fold over the events\<close>

definition new_account :: "int \<Rightarrow> account_state" where
  "new_account t = \<lparr>account_value = 0, positions = [], snapshot_time = t\<rparr>"

definition ensure_user :: "(string \<rightharpoonup> account_state) \<Rightarrow> string \<Rightarrow> int \<Rightarrow> (string \<rightharpoonup> account_state)" where
  "ensure_user ws u t = (case ws u of None \<Rightarrow> ws(u \<mapsto> new_account t) | Some a \<Rightarrow> ws)"

text \<open>
  \<open>working_states[user][...] op= x\<close>. The account is always present after
  \<open>ensure_user\<close>; a missing key (a \<open>KeyError\<close> in Python) leaves the map as it is.
\<close>

definition update_account ::
  "(string \<rightharpoonup> account_state) \<Rightarrow> string \<Rightarrow> (account_state \<Rightarrow> account_state) \<Rightarrow> (string \<rightharpoonup> account_state)" where
  "update_account ws u g = (case ws u of None \<Rightarrow> ws | Some a \<Rightarrow> ws(u \<mapsto> g a))"

definition ensure_position :: "(string \<times> position) list \<Rightarrow> fill_event \<Rightarrow> (string \<times> position) list" where
  "ensure_position ps f =
     (case map_of ps (coin f) of
        None \<Rightarrow> ps @ [(coin f, \<lparr>size_pos = 0, entry_price = Some (price f), notional = 0\<rparr>)]
      | Some p \<Rightarrow> ps)"

definition apply_fill :: "fill_event \<Rightarrow> account_state \<Rightarrow> account_state" where
  "apply_fill f a =
     (let a1 = a\<lparr>account_value := account_value a + closedPnl f\<rparr>;
          a2 = a1\<lparr>account_value := account_value a1 - fee f\<rparr>;
          ps = ensure_position (positions a2) f;
          new_size = startPosition f
      in a2\<lparr>positions := AList.map_entry (coin f) (\<lambda>p. p\<lparr>size_pos := new_size\<rparr>) ps\<rparr>)"

definition apply_event :: "replay_state \<Rightarrow> event \<Rightarrow> replay_state" where
  "apply_event st e =
     (let ws = ensure_user (working_states st) (user e) (time e)
      in case payload e of
           Fill f \<Rightarrow>
             \<lparr>working_states = update_account ws (user e) (apply_fill f),
              last_prices = (last_prices st)(coin f \<mapsto> price f)\<rparr>
         | Funding c funding_amount \<Rightarrow>
             st\<lparr>working_states :=
                  update_account ws (user e) (\<lambda>a. a\<lparr>account_value := account_value a + funding_amount\<rparr>)\<rparr>
         | Deposit amount \<Rightarrow>
             st\<lparr>working_states :=
                  update_account ws (user e) (\<lambda>a. a\<lparr>account_value := account_value a + amount\<rparr>)\<rparr>
         | Withdrawal amount \<Rightarrow>
             st\<lparr>working_states :=
                  update_account ws (user e) (\<lambda>a. a\<lparr>account_value := account_value a - amount\<rparr>)\<rparr>
         | Transfer amount \<Rightarrow>
             st\<lparr>working_states :=
                  update_account ws (user e) (\<lambda>a. a\<lparr>account_value := account_value a + amount\<rparr>)\<rparr>)"

text \<open>
  The loop of STEP 3, started from the copy of \<open>account_states\<close> and the empty
  \<open>last_prices\<close>.
\<close>

definition initial_state :: "(string \<rightharpoonup> account_state) \<Rightarrow> replay_state" where
  "initial_state account_states = \<lparr>working_states = account_states, last_prices = Map.empty\<rparr>"

definition process_events :: "replay_state \<Rightarrow> event list \<Rightarrow> replay_state" where
  "process_events st evs = foldl apply_event st evs"

definition reconstruct :: "(string \<rightharpoonup> account_state) \<Rightarrow> event list \<Rightarrow> replay_state" where
  "reconstruct account_states all_events =
     process_events (initial_state account_states) (events_in_window all_events)"

subsection \<open>STEP 4: the forced-deleveraging fills and the liquidations\<close>

definition is_adl_event :: "event \<Rightarrow> bool" where
  "is_adl_event e =
     (case payload e of Fill f \<Rightarrow> direction f = ''Auto-Deleveraging'' | _ \<Rightarrow> False)"

definition is_liquidation :: "event \<Rightarrow> bool" where
  "is_liquidation e =
     (case payload e of
        Fill f \<Rightarrow> direction f \<noteq> ''Auto-Deleveraging'' \<and> str_in ''Liquidated'' (direction f)
      | _ \<Rightarrow> False)"

definition adl_events :: "event list \<Rightarrow> event list" where
  "adl_events evs = filter is_adl_event evs"

definition liquidations :: "event list \<Rightarrow> event list" where
  "liquidations evs = filter is_liquidation evs"

subsection \<open>STEP 5: the metrics of each forced-deleveraging fill\<close>

record adl_record =
  user_out :: string
  coin_out :: string
  time_out :: int
  adl_price :: real
  adl_size :: real
  adl_notional :: real
  closed_pnl :: real
  position_size :: real
  entry_price_out :: real
  account_value_realtime :: real
  total_unrealized_pnl :: real
  total_equity :: real
  is_negative_equity :: bool
  leverage_realtime :: real
  position_unrealized_pnl :: real
  pnl_percent :: real
  liquidated_user :: "string option"

text \<open>
  One round of the inner loop over \<open>account_state['positions'].items()\<close>: the three
  \<open>continue\<close> guards, then the signed difference to the last traded price.
\<close>

definition unrealized_of :: "(string \<rightharpoonup> real) \<Rightarrow> string \<times> position \<Rightarrow> real option" where
  "unrealized_of lp cp =
     (let pos_coin = fst cp; position = snd cp
      in if size_pos position = 0 then None
         else let current_price = (case lp pos_coin of None \<Rightarrow> 0 | Some v \<Rightarrow> v)
              in if current_price = 0 then None
                 else case entry_price position of
                        None \<Rightarrow> None
                      | Some ep \<Rightarrow>
                          if ep = 0 then None
                          else if size_pos position > 0
                               then Some (size_pos position * (current_price - ep))
                               else Some (\<bar>size_pos position\<bar> * (ep - current_price)))"

fun sum_unrealized :: "(string \<rightharpoonup> real) \<Rightarrow> (string \<times> position) list \<Rightarrow> real \<Rightarrow> real" where
  "sum_unrealized lp [] tot = tot"
| "sum_unrealized lp (cp # rest) tot =
     (case unrealized_of lp cp of
        None \<Rightarrow> sum_unrealized lp rest tot
      | Some unrealized \<Rightarrow> sum_unrealized lp rest (tot + unrealized))"

text \<open>
  The two guarded divisions of the STEP 5 loop. Python's \<open>/\<close> raises on a zero
  divisor, so each is a checked division behind the script's guard.
\<close>

definition pnl_percent_of :: "real \<Rightarrow> real \<Rightarrow> error + real" where
  "pnl_percent_of pos_unrealized position_notional =
     (if position_notional > 0
      then map_sum id (\<lambda>q. q * 100) (py_div pos_unrealized position_notional)
      else Inr 0)"

definition leverage_of :: "real \<Rightarrow> real \<Rightarrow> error + real" where
  "leverage_of position_notional acct_value =
     (if acct_value > 0 then py_div position_notional acct_value else Inr 0)"

definition position_unrealized_of :: "position \<Rightarrow> real \<Rightarrow> real \<Rightarrow> real" where
  "position_unrealized_of position ep adl_px =
     (if size_pos position > 0
      then size_pos position * (adl_px - ep)
      else \<bar>size_pos position\<bar> * (ep - adl_px))"

text \<open>
  The body of the STEP 5 loop for one fill. \<open>Inr None\<close> is a \<open>continue\<close> (no record
  is appended), \<open>Inl\<close> an exception that ends the script: the subtraction with an entry
  price that is \<open>None\<close> raises \<open>TypeError\<close>, and a division raises on a zero divisor.
\<close>

definition make_record ::
  "int \<Rightarrow> string \<Rightarrow> fill_event \<Rightarrow> account_state \<Rightarrow> position \<Rightarrow> real \<Rightarrow> real \<Rightarrow> real \<Rightarrow> real \<Rightarrow> adl_record" where
  "make_record adl_time usr adl acct position ep total_unrealized pct leverage =
     \<lparr>user_out = usr,
      coin_out = coin adl,
      time_out = adl_time,
      adl_price = price adl,
      adl_size = size_fill adl,
      adl_notional = \<bar>size_fill adl\<bar> * price adl,
      closed_pnl = closedPnl adl,
      position_size = size_pos position,
      entry_price_out = ep,
      account_value_realtime = account_value acct,
      total_unrealized_pnl = total_unrealized,
      total_equity = account_value acct + total_unrealized,
      is_negative_equity = (account_value acct + total_unrealized < 0),
      leverage_realtime = leverage,
      position_unrealized_pnl = position_unrealized_of position ep (price adl),
      pnl_percent = pct,
      liquidated_user = liquidation_data adl\<rparr>"

definition position_metrics ::
  "int \<Rightarrow> string \<Rightarrow> fill_event \<Rightarrow> account_state \<Rightarrow> real \<Rightarrow> position \<Rightarrow> error + adl_record option" where
  "position_metrics adl_time usr adl acct total_unrealized position =
     (case entry_price position of
        None \<Rightarrow> Inl TypeError
      | Some ep \<Rightarrow>
          let position_notional = \<bar>size_pos position\<bar> * price adl
          in (case pnl_percent_of (position_unrealized_of position ep (price adl)) position_notional of
                Inl err \<Rightarrow> Inl err
              | Inr pct \<Rightarrow>
                  (case leverage_of position_notional (account_value acct) of
                     Inl err \<Rightarrow> Inl err
                   | Inr leverage \<Rightarrow>
                       Inr (Some (make_record adl_time usr adl acct position ep total_unrealized pct leverage)))))"

definition fill_metrics :: "replay_state \<Rightarrow> int \<Rightarrow> string \<Rightarrow> fill_event \<Rightarrow> error + adl_record option" where
  "fill_metrics st adl_time usr adl =
     (case working_states st usr of
        None \<Rightarrow> Inr None
      | Some acct \<Rightarrow>
          let total_unrealized = sum_unrealized (last_prices st) (positions acct) 0
          in (case map_of (positions acct) (coin adl) of
                None \<Rightarrow> Inr None
              | Some position \<Rightarrow> position_metrics adl_time usr adl acct total_unrealized position))"

text \<open>Only fills reach STEP 5; any other event has no \<open>'coin'\<close> or \<open>'price'\<close> key.\<close>

definition adl_metrics :: "replay_state \<Rightarrow> event \<Rightarrow> error + adl_record option" where
  "adl_metrics st e =
     (case payload e of
        Fill f \<Rightarrow> fill_metrics st (time e) (user e) f
      | _ \<Rightarrow> Inl KeyError)"

fun step5 :: "replay_state \<Rightarrow> event list \<Rightarrow> error + adl_record list" where
  "step5 st [] = Inr []"
| "step5 st (adl # rest) =
     (case adl_metrics st adl of
        Inl err \<Rightarrow> Inl err
      | Inr None \<Rightarrow> step5 st rest
      | Inr (Some r) \<Rightarrow> map_sum id ((#) r) (step5 st rest))"

text \<open>
  STEP 2 to STEP 5 of the script: the records of \<open>adl_with_realtime\<close>, computed from
  the state the fold ends in.
\<close>

definition adl_with_realtime :: "(string \<rightharpoonup> account_state) \<Rightarrow> event list \<Rightarrow> error + adl_record list" where
  "adl_with_realtime account_states all_events =
     step5 (reconstruct account_states all_events) (adl_events (events_in_window all_events))"

text \<open>
  The reading of the specification the script's own STEP 5 comment asks for ("the account
  state AT THAT EXACT MOMENT"): the same metrics, taken from the state and the last-price
  table as they stand right after the fill has been applied in the forward pass.
\<close>

fun spec_adl_at_moment :: "replay_state \<Rightarrow> event list \<Rightarrow> error + adl_record list" where
  "spec_adl_at_moment st [] = Inr []"
| "spec_adl_at_moment st (e # rest) =
     (let st' = apply_event st e
      in if is_adl_event e
         then (case adl_metrics st' e of
                 Inl err \<Rightarrow> Inl err
               | Inr None \<Rightarrow> spec_adl_at_moment st' rest
               | Inr (Some r) \<Rightarrow> map_sum id ((#) r) (spec_adl_at_moment st' rest))
         else spec_adl_at_moment st' rest)"

definition spec_adl_with_realtime :: "(string \<rightharpoonup> account_state) \<Rightarrow> event list \<Rightarrow> error + adl_record list" where
  "spec_adl_with_realtime account_states all_events =
     spec_adl_at_moment (initial_state account_states) (events_in_window all_events)"

subsection \<open>Observations on the reconstructor's state\<close>


text \<open>
  The stored entry price of an account's position: \<open>None\<close> when the account or the
  position is missing, \<open>Some None\<close> when the stored value is \<open>None\<close>.
\<close>

definition entry_of :: "replay_state \<Rightarrow> string \<Rightarrow> string \<Rightarrow> real option option" where
  "entry_of st u c =
     (case working_states st u of
        None \<Rightarrow> None
      | Some a \<Rightarrow> map_option entry_price (map_of (positions a) c))"

definition fill_price_on :: "string \<Rightarrow> string \<Rightarrow> event \<Rightarrow> real option" where
  "fill_price_on u c e =
     (case payload e of
        Fill f \<Rightarrow> if user e = u \<and> coin f = c then Some (price f) else None
      | _ \<Rightarrow> None)"

definition first_fill_price :: "string \<Rightarrow> string \<Rightarrow> event list \<Rightarrow> real option" where
  "first_fill_price u c evs =
     (case List.map_filter (fill_price_on u c) evs of [] \<Rightarrow> None | p # rest \<Rightarrow> Some p)"


subsection \<open>The ADL extractor\<close>

text \<open>
  A \<open>datetime\<close> is its wall-clock time in microseconds since 1970-01-01T00:00:00 and
  its UTC offset in microseconds, \<open>None\<close> for a naive value. Two aware values compare by
  their instants.
\<close>

record datetime =
  wall_micros :: int
  utcoffset :: "int option"

definition instant :: "datetime \<Rightarrow> int" where
  "instant dt = wall_micros dt - (case utcoffset dt of None \<Rightarrow> 0 | Some off \<Rightarrow> off)"

text \<open>Days from 1970-01-01 to a date of the proleptic Gregorian calendar.\<close>

definition days_from_civil :: "int \<Rightarrow> int \<Rightarrow> int \<Rightarrow> int" where
  "days_from_civil y m d =
     (let y' = (if m \<le> 2 then y - 1 else y);
          era = y' div 400;
          yoe = y' - era * 400;
          doy = (153 * (if m > 2 then m - 3 else m + 9) + 2) div 5 + d - 1;
          doe = yoe * 365 + yoe div 4 - yoe div 100 + doy
      in era * 146097 + doe - 719468)"

text \<open>\<open>datetime(y, m, d, hh, mm, ss, tzinfo=timezone.utc)\<close>.\<close>

definition datetime_utc :: "int \<Rightarrow> int \<Rightarrow> int \<Rightarrow> int \<Rightarrow> int \<Rightarrow> int \<Rightarrow> datetime" where
  "datetime_utc y m d hh mm ss =
     \<lparr>wall_micros = (((days_from_civil y m d * 24 + hh) * 60 + mm) * 60 + ss) * 1000000,
      utcoffset = Some 0\<rparr>"

definition ADL_START :: datetime where
  "ADL_START = datetime_utc 2025 10 10 21 15 0"

definition ADL_END :: datetime where
  "ADL_END = datetime_utc 2025 10 10 21 27 0"

text \<open>
  A decoded fill dictionary. A numeric field is \<open>None\<close> when \<open>float(...)\<close> raises on
  its value; an absent key has the default of its \<open>fill.get\<close>.
\<close>

record raw_fill =
  dir :: string
  coin_raw :: string
  px :: "real option"
  sz :: "real option"
  side_raw :: string
  startPosition_raw :: "real option"
  closedPnl_raw :: "real option"
  fee_raw :: "real option"

text \<open>An element of \<open>events\<close>: a list of at least two items, or anything else.\<close>

datatype raw_event = Not_a_pair | Pair string raw_fill

text \<open>
  A line of the log: not JSON, or a block with its \<open>block_time\<close> string (empty when
  absent) and its events.
\<close>

datatype raw_line = Bad_json | Block string "raw_event list"

record adl_fill =
  block_time :: datetime
  user_af :: string
  coin_af :: string
  direction_af :: string
  price_af :: real
  size_af :: real
  side_af :: string
  start_position :: real
  closed_pnl_af :: real
  fee_af :: real
  notional_af :: real

definition ljust :: "nat \<Rightarrow> char \<Rightarrow> string \<Rightarrow> string" where
  "ljust n c s = s @ replicate (n - length s) c"

text \<open>
  The fraction of a second is cut or padded to six digits: \<open>rsplit('.', 1)\<close> splits at
  the last dot.
\<close>

definition normalize_fraction :: "string \<Rightarrow> string" where
  "normalize_fraction block_time_str =
     (if CHR ''.'' \<in> set block_time_str
      then let frac = rev (takeWhile (\<lambda>c. c \<noteq> CHR ''.'') (rev block_time_str));
               base = rev (drop 1 (dropWhile (\<lambda>c. c \<noteq> CHR ''.'') (rev block_time_str)));
               frac_truncated = ljust 6 (CHR ''0'') (take 6 frac)
           in base @ ''.'' @ frac_truncated
      else block_time_str)"

text \<open>
  The five \<open>float(...)\<close> conversions and the appended dictionary; \<open>None\<close> when one of
  the conversions raises.
\<close>

definition convert_fill :: "datetime \<Rightarrow> string \<Rightarrow> raw_fill \<Rightarrow> adl_fill option" where
  "convert_fill bt usr fill =
     (case (px fill, sz fill, startPosition_raw fill, closedPnl_raw fill, fee_raw fill) of
        (Some p, Some s, Some sp, Some cp, Some fe) \<Rightarrow>
          Some \<lparr>block_time = bt, user_af = usr, coin_af = coin_raw fill, direction_af = dir fill,
                price_af = p, size_af = s, side_af = side_raw fill, start_position = sp,
                closed_pnl_af = cp, fee_af = fe, notional_af = s * p\<rparr>
      | _ \<Rightarrow> None)"

text \<open>
  The loop over the events of one block. An exception leaves the \<open>try\<close> block, so the
  remaining events of the line are not looked at.
\<close>

fun scan_events :: "datetime \<Rightarrow> raw_event list \<Rightarrow> adl_fill list \<Rightarrow> adl_fill list" where
  "scan_events bt [] adl_fills = adl_fills"
| "scan_events bt (Not_a_pair # rest) adl_fills = scan_events bt rest adl_fills"
| "scan_events bt (Pair usr fill # rest) adl_fills =
     (if \<not> str_in ''Auto-Deleveraging'' (dir fill) then scan_events bt rest adl_fills
      else if prefix ''@'' (coin_raw fill) then scan_events bt rest adl_fills
      else (case convert_fill bt usr fill of
              None \<Rightarrow> adl_fills
            | Some r \<Rightarrow> scan_events bt rest (adl_fills @ [r])))"

text \<open>
  The timestamp of a line as the loop body reads it: \<open>None\<close> when the line is skipped
  before the window test (no JSON, no \<open>block_time\<close>, or \<open>fromisoformat\<close> raises). The ISO
  parser of the Python library is a parameter.
\<close>

definition parsed_time :: "(string \<Rightarrow> datetime option) \<Rightarrow> raw_line \<Rightarrow> datetime option" where
  "parsed_time fromisoformat l =
     (case l of
        Bad_json \<Rightarrow> None
      | Block block_time_str evs \<Rightarrow>
          if block_time_str = [] then None
          else (case fromisoformat (normalize_fraction block_time_str) of
                  None \<Rightarrow> None
                | Some dt \<Rightarrow> Some (if utcoffset dt = None then dt\<lparr>utcoffset := Some 0\<rparr> else dt)))"

definition events_of :: "raw_line \<Rightarrow> raw_event list" where
  "events_of l = (case l of Bad_json \<Rightarrow> [] | Block block_time_str evs \<Rightarrow> evs)"

definition scan_line :: "(string \<Rightarrow> datetime option) \<Rightarrow> adl_fill list \<Rightarrow> raw_line \<Rightarrow> adl_fill list" where
  "scan_line fromisoformat adl_fills l =
     (case parsed_time fromisoformat l of
        None \<Rightarrow> adl_fills
      | Some bt \<Rightarrow>
          if instant bt < instant ADL_START \<or> instant bt \<ge> instant ADL_END then adl_fills
          else scan_events bt (events_of l) adl_fills)"

definition extract_adl_fills :: "(string \<Rightarrow> datetime option) \<Rightarrow> raw_line list \<Rightarrow> adl_fill list" where
  "extract_adl_fills fromisoformat ls = foldl (scan_line fromisoformat) [] ls"

text \<open>What a line adds to the result once its block time \<open>bt\<close> has passed the window test.\<close>

definition line_fills :: "(string \<Rightarrow> datetime option) \<Rightarrow> raw_line \<Rightarrow> adl_fill list" where
  "line_fills fromisoformat l =
     (case parsed_time fromisoformat l of
        None \<Rightarrow> []
      | Some bt \<Rightarrow> scan_events bt (events_of l) [])"

text \<open>The half-open window of the specification, on the parsed timestamp of a line.\<close>

definition spec_in_window :: "(string \<Rightarrow> datetime option) \<Rightarrow> raw_line \<Rightarrow> bool" where
  "spec_in_window fromisoformat l =
     (case parsed_time fromisoformat l of
        None \<Rightarrow> False
      | Some bt \<Rightarrow> instant ADL_START \<le> instant bt \<and> instant bt < instant ADL_END)"

subsection \<open>Concrete inputs\<close>

text \<open>
  Account A of the end-to-end scenario: account value 1000 and a long position of size 2
  in X entered at 100.
\<close>

definition snapshot_A :: "string \<rightharpoonup> account_state" where
  "snapshot_A =
     [''A'' \<mapsto> \<lparr>account_value = 1000,
                positions = [(''X'', \<lparr>size_pos = 2, entry_price = Some 100, notional = 200\<rparr>)],
                snapshot_time = 1760126694218\<rparr>]"

definition adl_fill_X :: fill_event where
  "adl_fill_X =
     \<lparr>coin = ''X'', price = 90, size_fill = 2, side = ''A'', direction = ''Auto-Deleveraging'',
      closedPnl = -20, fee = 1, startPosition = 2, liquidation_data = None\<rparr>"

text \<open>
  The events of the scenario: funding of +5, then the forced-deleveraging fill on X of
  size 2 at 90 with realized PnL -20 and fee 1, on the position of size 2. The
  timestamps, the side and the liquidation data are left open.
\<close>

definition scenario_events :: "int \<Rightarrow> int \<Rightarrow> string \<Rightarrow> string option \<Rightarrow> event list" where
  "scenario_events t1 t2 sd liq =
     [\<lparr>time = t1, user = ''A'', payload = Funding ''X'' 5\<rparr>,
      \<lparr>time = t2, user = ''A'',
       payload = Fill \<lparr>coin = ''X'', price = 90, size_fill = 2, side = sd,
                       direction = ''Auto-Deleveraging'', closedPnl = -20, fee = 1,
                       startPosition = 2, liquidation_data = liq\<rparr>\<rparr>]"

definition adl_then_deposit :: "event list" where
  "adl_then_deposit =
     [\<lparr>time = 1760130900000, user = ''A'', payload = Fill adl_fill_X\<rparr>,
      \<lparr>time = 1760130960000, user = ''A'', payload = Deposit 100\<rparr>]"

text \<open>Two fills of an account the snapshot does not know, at 90 and then at 80.\<close>

definition fill_Y :: "real \<Rightarrow> fill_event" where
  "fill_Y p =
     \<lparr>coin = ''Y'', price = p, size_fill = 1, side = ''B'', direction = ''Open Long'',
      closedPnl = 0, fee = 0, startPosition = 0, liquidation_data = None\<rparr>"

definition two_fills :: "event list" where
  "two_fills =
     [\<lparr>time = 1760130900000, user = ''B'', payload = Fill (fill_Y 90)\<rparr>,
      \<lparr>time = 1760130960000, user = ''B'', payload = Fill (fill_Y 80)\<rparr>]"

text \<open>A forced-deleveraging fill of a new account with nothing to gain, pay or hold.\<close>

definition zero_adl :: event where
  "zero_adl =
     \<lparr>time = 1760130900000, user = ''B'',
      payload = Fill \<lparr>coin = ''Y'', price = 50, size_fill = 1, side = ''B'',
                      direction = ''Auto-Deleveraging'', closedPnl = 0, fee = 0,
                      startPosition = 0, liquidation_data = None\<rparr>\<rparr>"

text \<open>Two positions: a long one in X, and one in Z whose entry price is not set.\<close>

definition position_X :: position where
  "position_X = \<lparr>size_pos = 2, entry_price = Some 100, notional = 200\<rparr>"

definition position_Z :: position where
  "position_Z = \<lparr>size_pos = 3, entry_price = None, notional = 21\<rparr>"

definition prices_XZ :: "string \<rightharpoonup> real" where
  "prices_XZ = [''X'' \<mapsto> 90, ''Z'' \<mapsto> 7]"

text \<open>A fill whose label holds more than the words \<open>Auto-Deleveraging\<close>.\<close>

definition labelled_fill :: fill_event where
  "labelled_fill =
     \<lparr>coin = ''X'', price = 90, size_fill = 2, side = ''A'',
      direction = ''Auto-Deleveraging (Short)'', closedPnl = 0, fee = 0, startPosition = 2,
      liquidation_data = None\<rparr>"

definition labelled_event :: event where
  "labelled_event = \<lparr>time = 1760130900000, user = ''A'', payload = Fill labelled_fill\<rparr>"

definition labelled_raw :: raw_fill where
  "labelled_raw =
     \<lparr>dir = ''Auto-Deleveraging (Short)'', coin_raw = ''X'', px = Some 90, sz = Some 2,
      side_raw = ''A'', startPosition_raw = Some 2, closedPnl_raw = Some 0, fee_raw = Some 0\<rparr>"

definition plain_raw :: raw_fill where
  "plain_raw =
     \<lparr>dir = ''Auto-Deleveraging'', coin_raw = ''X'', px = Some 90, sz = Some 2,
      side_raw = ''A'', startPosition_raw = Some 2, closedPnl_raw = Some 0, fee_raw = Some 0\<rparr>"

text \<open>A parser that knows the two boundary timestamps, and a block at each of them.\<close>

definition boundary_parser :: "string \<Rightarrow> datetime option" where
  "boundary_parser s =
     (if s = ''2025-10-10T21:15:00.000000''
      then Some \<lparr>wall_micros = 1760130900000000, utcoffset = None\<rparr>
      else if s = ''2025-10-10T21:27:00.000000''
      then Some \<lparr>wall_micros = 1760131620000000, utcoffset = None\<rparr>
      else None)"

definition block_at_start :: raw_line where
  "block_at_start = Block ''2025-10-10T21:15:00.000'' [Pair ''A'' plain_raw]"

definition block_at_end :: raw_line where
  "block_at_end = Block ''2025-10-10T21:27:00.000'' [Pair ''A'' plain_raw]"

definition block_labelled :: raw_line where
  "block_labelled = Block ''2025-10-10T21:15:00.000'' [Pair ''A'' labelled_raw]"

section \<open>Lemmas about the fold of the reconstructor\<close>

lemma ensure_user_other: "u \<noteq> v \<Longrightarrow> ensure_user ws v t u = ws u"
  by (simp add: ensure_user_def split: option.splits)

lemma update_account_other: "u \<noteq> v \<Longrightarrow> update_account ws v g u = ws u"
  by (simp add: update_account_def split: option.splits)

lemma apply_event_other:
  "u \<noteq> user e \<Longrightarrow> working_states (apply_event st e) u = working_states st u"
  by (simp add: apply_event_def Let_def update_account_other ensure_user_other
           split: event_type.splits)

lemma process_events_other:
  "u \<notin> user ` set evs \<Longrightarrow> working_states (process_events st evs) u = working_states st u"
  unfolding process_events_def
  by (induction evs arbitrary: st) (simp_all add: apply_event_other)

lemma map_of_ensure_position:
  "map_of (ensure_position ps f) c =
     (if c = coin f
      then (case map_of ps c of
              None \<Rightarrow> Some \<lparr>size_pos = 0, entry_price = Some (price f), notional = 0\<rparr>
            | Some p \<Rightarrow> Some p)
      else map_of ps c)"
  by (auto simp: ensure_position_def map_add_def split: option.splits)

lemma map_of_apply_fill:
  "map_of (positions (apply_fill f a)) c =
     (if c = coin f
      then (case map_of (positions a) c of
              None \<Rightarrow> Some \<lparr>size_pos = startPosition f, entry_price = Some (price f), notional = 0\<rparr>
            | Some p \<Rightarrow> Some (p\<lparr>size_pos := startPosition f\<rparr>))
      else map_of (positions a) c)"
  by (simp add: apply_fill_def Let_def map_of_map_entry map_of_ensure_position
           split: option.splits)

lemma account_value_apply_fill:
  "account_value (apply_fill f a) = account_value a + closedPnl f - fee f"
  by (simp add: apply_fill_def Let_def)

lemma working_states_apply_event_user:
  "working_states (apply_event st e) (user e) =
     (let a = (case working_states st (user e) of None \<Rightarrow> new_account (time e) | Some a \<Rightarrow> a)
      in Some (case payload e of
                 Fill f \<Rightarrow> apply_fill f a
               | Funding c x \<Rightarrow> a\<lparr>account_value := account_value a + x\<rparr>
               | Deposit x \<Rightarrow> a\<lparr>account_value := account_value a + x\<rparr>
               | Withdrawal x \<Rightarrow> a\<lparr>account_value := account_value a - x\<rparr>
               | Transfer x \<Rightarrow> a\<lparr>account_value := account_value a + x\<rparr>))"
  by (simp add: apply_event_def Let_def update_account_def ensure_user_def
           split: event_type.splits option.splits)

lemma working_states_apply_event:
  "working_states (apply_event st e) u =
     (if u = user e
      then (let a = (case working_states st u of None \<Rightarrow> new_account (time e) | Some a \<Rightarrow> a)
            in Some (case payload e of
                       Fill f \<Rightarrow> apply_fill f a
                     | Funding c x \<Rightarrow> a\<lparr>account_value := account_value a + x\<rparr>
                     | Deposit x \<Rightarrow> a\<lparr>account_value := account_value a + x\<rparr>
                     | Withdrawal x \<Rightarrow> a\<lparr>account_value := account_value a - x\<rparr>
                     | Transfer x \<Rightarrow> a\<lparr>account_value := account_value a + x\<rparr>))
      else working_states st u)"
  using working_states_apply_event_user [of st e] apply_event_other [of u e st]
  by (cases "u = user e") simp_all



lemma entry_of_apply_event:
  "entry_of (apply_event st e) u c =
     (case entry_of st u c of
        Some x \<Rightarrow> Some x
      | None \<Rightarrow> map_option Some (fill_price_on u c e))"
  by (auto simp: entry_of_def fill_price_on_def working_states_apply_event Let_def
                 map_of_apply_fill new_account_def
           split: option.splits event_type.splits)

lemma first_fill_price_Cons:
  "first_fill_price u c (e # evs) =
     (case fill_price_on u c e of Some p \<Rightarrow> Some p | None \<Rightarrow> first_fill_price u c evs)"
  by (simp add: first_fill_price_def split: option.splits)

lemma entry_of_process_events:
  "entry_of (process_events st evs) u c =
     (case entry_of st u c of
        Some x \<Rightarrow> Some x
      | None \<Rightarrow> map_option Some (first_fill_price u c evs))"
  unfolding process_events_def
proof (induction evs arbitrary: st)
  case Nil
  show ?case by (simp add: first_fill_price_def split: option.splits)
next
  case (Cons e evs)
  show ?case
    by (simp add: Cons.IH entry_of_apply_event first_fill_price_Cons split: option.splits)
qed








section \<open>Lemmas about the metrics\<close>

lemma str_in_sublist: "str_in needle hay \<longleftrightarrow> sublist needle hay"
  by (induction hay) (simp_all add: sublist_Cons_right)

lemma sum_unrealized_append:
  "sum_unrealized lp (xs @ ys) t = sum_unrealized lp ys (sum_unrealized lp xs t)"
  by (induction xs arbitrary: t) (simp_all split: option.splits)

lemma unrealized_of_skipped:
  "size_pos p = 0 \<or> lp c = None \<or> lp c = Some 0 \<or> entry_price p = None \<or> entry_price p = Some 0
   \<Longrightarrow> unrealized_of lp (c, p) = None"
  by (auto simp: unrealized_of_def Let_def split: option.splits)





section \<open>Lemmas about the extractor\<close>

lemma scan_events_acc:
  "scan_events bt evs acc = acc @ scan_events bt evs []"
proof (induction evs arbitrary: acc)
  case Nil
  show ?case by simp
next
  case (Cons ev evs)
  show ?case
  proof (cases ev)
    case Not_a_pair
    then show ?thesis using Cons.IH [of acc] by simp
  next
    case (Pair usr fill)
    show ?thesis
    proof (cases "convert_fill bt usr fill")
      case None
      then show ?thesis using Pair Cons.IH [of acc] by simp
    next
      case (Some r)
      then show ?thesis
        using Pair Cons.IH [of acc] Cons.IH [of "acc @ [r]"] Cons.IH [of "[r]"] by simp
    qed
  qed
qed

lemma scan_events_block_time:
  "r \<in> set (scan_events bt evs []) \<Longrightarrow> block_time r = bt"
proof (induction evs)
  case Nil
  then show ?case by simp
next
  case (Cons ev evs)
  show ?case
  proof (cases ev)
    case Not_a_pair
    then show ?thesis using Cons by simp
  next
    case (Pair usr fill)
    show ?thesis
    proof (cases "convert_fill bt usr fill")
      case None
      then show ?thesis using Pair Cons by (auto split: if_splits)
    next
      case (Some r')
      have "block_time r' = bt"
        using Some by (auto simp: convert_fill_def split: option.splits)
      then show ?thesis
        using Some Pair Cons scan_events_acc [of bt evs "[r']"] by (auto split: if_splits)
    qed
  qed
qed

lemma scan_line_acc:
  "scan_line p acc l = acc @ (if spec_in_window p l then line_fills p l else [])"
  using scan_events_acc [of _ "events_of l" acc]
  by (auto simp: scan_line_def spec_in_window_def line_fills_def split: option.splits)

lemma foldl_scan_line:
  "foldl (scan_line p) acc ls = acc @ concat (map (line_fills p) (filter (spec_in_window p) ls))"
proof (induction ls arbitrary: acc)
  case Nil
  show ?case by simp
next
  case (Cons l ls)
  have "foldl (scan_line p) acc (l # ls) =
          scan_line p acc l @ concat (map (line_fills p) (filter (spec_in_window p) ls))"
    by (simp add: Cons.IH)
  also have "\<dots> = acc @ concat (map (line_fills p) (filter (spec_in_window p) (l # ls)))"
    by (simp add: scan_line_acc)
  finally show ?case .
qed

lemma extract_adl_fills_window:
  "extract_adl_fills p ls = concat (map (line_fills p) (filter (spec_in_window p) ls))"
  by (simp add: extract_adl_fills_def foldl_scan_line)

lemma extract_adl_fills_times:
  assumes "r \<in> set (extract_adl_fills p ls)"
  shows "instant ADL_START \<le> instant (block_time r) \<and> instant (block_time r) < instant ADL_END"
proof -
  from assms obtain l where l: "l \<in> set ls" "spec_in_window p l" "r \<in> set (line_fills p l)"
    by (auto simp: extract_adl_fills_window)
  from l(2) obtain bt where bt: "parsed_time p l = Some bt"
    "instant ADL_START \<le> instant bt" "instant bt < instant ADL_END"
    by (auto simp: spec_in_window_def split: option.splits)
  from l(3) bt(1) have "block_time r = bt"
    by (auto simp: line_fills_def dest: scan_events_block_time)
  with bt show ?thesis by simp
qed

lemma window_instants: "instant ADL_START = 1760130900000000" "instant ADL_END = 1760131620000000"
  by (simp_all add: instant_def ADL_START_def ADL_END_def datetime_utc_def days_from_civil_def Let_def)

section \<open>Evaluation of concrete runs\<close>

lemmas replay_defs =
  events_in_window_def SNAPSHOT_TIME_def ADL_END_TIME_def reconstruct_def process_events_def
  initial_state_def apply_event_def ensure_user_def update_account_def apply_fill_def
  ensure_position_def new_account_def Let_def

lemmas metrics_defs =
  adl_with_realtime_def adl_events_def is_adl_event_def adl_metrics_def fill_metrics_def
  position_metrics_def unrealized_of_def pnl_percent_of_def leverage_of_def py_div_def
  make_record_def position_unrealized_of_def

lemma instant_aware: "instant \<lparr>wall_micros = w, utcoffset = Some off\<rparr> = w - off"
  by (simp add: instant_def)

lemma normalize_boundaries:
  "normalize_fraction ''2025-10-10T21:15:00.000'' = ''2025-10-10T21:15:00.000000''"
  "normalize_fraction ''2025-10-10T21:27:00.000'' = ''2025-10-10T21:27:00.000000''"
  by (simp_all add: normalize_fraction_def ljust_def eval_nat_numeral)

lemma parsed_time_boundaries:
  "parsed_time boundary_parser (Block ''2025-10-10T21:15:00.000'' evs) =
     Some \<lparr>wall_micros = 1760130900000000, utcoffset = Some 0\<rparr>"
  "parsed_time boundary_parser (Block ''2025-10-10T21:27:00.000'' evs) =
     Some \<lparr>wall_micros = 1760131620000000, utcoffset = Some 0\<rparr>"
  by (simp_all add: parsed_time_def normalize_boundaries boundary_parser_def)

lemmas extract_defs =
  extract_adl_fills_def scan_line_def parsed_time_boundaries instant_aware window_instants
  events_of_def convert_fill_def line_fills_def

lemma window_zero_adl: "events_in_window [zero_adl] = [zero_adl]"
  by (simp add: events_in_window_def zero_adl_def SNAPSHOT_TIME_def ADL_END_TIME_def)


section \<open>The moment the metrics are taken at\<close>

text \<open>
  C1. The metrics of a forced-deleveraging fill are to be computed from the account state
  and the last-price table as they stand when that fill is applied in the forward pass,
  not from the state after later events. The script computes them in STEP 5 from the
  state the whole fold ends in: for account A (value 1000, long 2 X at 100), a
  forced-deleveraging fill (realized PnL -20, fee 1) followed one minute later by a
  deposit of 100 is reported with account value 1079, equity 1059 and leverage 180/1079,
  where the state at the moment of the fill gives 979, 959 and 180/979.
\<close>

theorem metrics_taken_from_final_state:
  "(\<exists>r. adl_with_realtime snapshot_A adl_then_deposit = Inr [r] \<and>
        account_value_realtime r = 1079 \<and> total_equity r = 1059 \<and>
        leverage_realtime r = 180 / 1079) \<and>
   (\<exists>r. spec_adl_with_realtime snapshot_A adl_then_deposit = Inr [r] \<and>
        account_value_realtime r = 979 \<and> total_equity r = 959 \<and>
        leverage_realtime r = 180 / 979) \<and>
   adl_with_realtime snapshot_A adl_then_deposit
     \<noteq> spec_adl_with_realtime snapshot_A adl_then_deposit"
  by (simp add: spec_adl_with_realtime_def replay_defs metrics_defs snapshot_A_def
        adl_then_deposit_def adl_fill_X_def)

section \<open>The end-to-end scenario\<close>

text \<open>
  C2. From the snapshot of account A (account value 1000, long 2 X entered at 100), a
  funding event of +5 and then a forced-deleveraging fill on X of size 2 at 90 with
  realized PnL -20 and fee 1 give exactly one record, with account value
  1000 + 5 - 20 - 1 = 984, position unrealized PnL -20, total equity 964, leverage
  (2 * 90) / 984 and the negative-equity flag false; the account value stored for A
  is 984. This holds for all timestamps of the two events in the analysis window, in
  this order, and for every side and liquidation data of the fill.
\<close>

theorem end_to_end_scenario:
  assumes "SNAPSHOT_TIME \<le> t1" and "t1 \<le> t2" and "t2 \<le> ADL_END_TIME"
  shows "\<exists>r. adl_with_realtime snapshot_A (scenario_events t1 t2 sd liq) = Inr [r] \<and>
           account_value_realtime r = 1000 + 5 - 20 - 1 \<and>
           account_value_realtime r = 984 \<and>
           position_unrealized_pnl r = 2 * (90 - 100) \<and>
           total_equity r = 964 \<and>
           leverage_realtime r = (2 * 90) / 984 \<and>
           is_negative_equity r = False \<and>
           map_option account_value
             (working_states (reconstruct snapshot_A (scenario_events t1 t2 sd liq)) ''A'') = Some 984"
  using assms
  by (simp add: replay_defs metrics_defs snapshot_A_def scenario_events_def)

theorem end_to_end_scenario_witness:
  "SNAPSHOT_TIME \<le> 1760130900000 \<and> (1760130900000 :: int) \<le> 1760130960000 \<and>
   1760130960000 \<le> ADL_END_TIME \<and>
   (\<exists>r. adl_with_realtime snapshot_A (scenario_events 1760130900000 1760130960000 ''A'' None) = Inr [r] \<and>
        account_value_realtime r = 984 \<and>
        position_unrealized_pnl r = - 20 \<and>
        total_equity r = 964 \<and>
        leverage_realtime r = 180 / 984 \<and>
        is_negative_equity r = False)"
proof -
  have h1: "SNAPSHOT_TIME \<le> 1760130900000"
    by (simp add: SNAPSHOT_TIME_def)
  have h2: "(1760130900000 :: int) \<le> 1760130960000"
    by simp
  have h3: "1760130960000 \<le> ADL_END_TIME"
    by (simp add: ADL_END_TIME_def)
  from end_to_end_scenario [OF h1 h2 h3, of "''A''" None] h1 h2 h3
  show ?thesis by auto
qed

section \<open>The stored entry price\<close>

text \<open>
  C3, as the script has it. A fill writes an entry price only when it creates the position
  entry; a position entry that exists keeps the entry price it has. So after the
  reconstruction the stored entry price of an account's position is the one the snapshot
  gave it, or, for a position the snapshot did not hold, the price of the first fill of
  that account on that instrument in the window; it is not the price of the latest fill.
\<close>

theorem entry_price_from_snapshot_or_first_fill:
  "entry_of (reconstruct account_states all_events) u c =
     (case entry_of (initial_state account_states) u c of
        Some ep \<Rightarrow> Some ep
      | None \<Rightarrow> map_option Some (first_fill_price u c (events_in_window all_events)))"
  by (simp add: reconstruct_def entry_of_process_events)

text \<open>
  Two fills of account B on Y, at 90 and then at 80: the stored entry price is 90, the
  price of the latest fill is 80.
\<close>

theorem entry_price_not_latest_fill:
  "entry_of (reconstruct Map.empty two_fills) ''B'' ''Y'' = Some (Some 90) \<and>
   fill_price_on ''B'' ''Y'' (last two_fills) = Some 80 \<and>
   entry_of (reconstruct Map.empty two_fills) ''B'' ''Y''
     \<noteq> Some (fill_price_on ''B'' ''Y'' (last two_fills))"
  by (simp add: replay_defs entry_of_def two_fills_def fill_Y_def fill_price_on_def)

section \<open>Which fills count as forced deleveraging\<close>

lemma scan_events_directions:
  "r \<in> set (scan_events bt evs []) \<Longrightarrow> sublist ''Auto-Deleveraging'' (direction_af r)"
proof (induction evs)
  case Nil
  then show ?case by simp
next
  case (Cons ev evs)
  show ?case
  proof (cases ev)
    case Not_a_pair
    then show ?thesis using Cons by simp
  next
    case (Pair usr fill)
    show ?thesis
    proof (cases "convert_fill bt usr fill")
      case None
      then show ?thesis using Pair Cons by (auto split: if_splits)
    next
      case (Some r')
      have "direction_af r' = dir fill"
        using Some by (auto simp: convert_fill_def split: option.splits)
      then show ?thesis
        using Some Pair Cons scan_events_acc [of bt evs "[r']"]
        by (auto simp: str_in_sublist split: if_splits)
    qed
  qed
qed

lemma extract_adl_fills_directions:
  assumes "r \<in> set (extract_adl_fills p ls)"
  shows "sublist ''Auto-Deleveraging'' (direction_af r)"
proof -
  from assms obtain l where "r \<in> set (line_fills p l)"
    by (auto simp: extract_adl_fills_window)
  then show ?thesis
    by (auto simp: line_fills_def dest: scan_events_directions split: option.splits)
qed

text \<open>
  C4, as the scripts have it. The extractor takes a fill for a forced-deleveraging fill
  exactly when its direction label contains \<open>Auto-Deleveraging\<close> as a substring: every
  fill it returns has such a label, and the loop passes over an event whose label does not
  contain it and goes on to the spot-market test and the conversions for one whose label
  does. The reconstructor's STEP 4 takes a fill exactly when its direction label is equal
  to \<open>Auto-Deleveraging\<close>; a label that holds more text is not taken there.
\<close>

theorem adl_classification:
  "(\<forall>r\<in>set (extract_adl_fills p ls). sublist ''Auto-Deleveraging'' (direction_af r)) \<and>
   scan_events bt (Pair usr fill # rest) acc =
     (if sublist ''Auto-Deleveraging'' (dir fill)
      then (if prefix ''@'' (coin_raw fill) then scan_events bt rest acc
            else (case convert_fill bt usr fill of
                    None \<Rightarrow> acc
                  | Some r \<Rightarrow> scan_events bt rest (acc @ [r])))
      else scan_events bt rest acc) \<and>
   adl_events evs =
     filter (\<lambda>e. \<exists>f. payload e = Fill f \<and> direction f = ''Auto-Deleveraging'') evs"
proof (intro conjI)
  show "\<forall>r\<in>set (extract_adl_fills p ls). sublist ''Auto-Deleveraging'' (direction_af r)"
    using extract_adl_fills_directions by blast
  show "scan_events bt (Pair usr fill # rest) acc =
     (if sublist ''Auto-Deleveraging'' (dir fill)
      then (if prefix ''@'' (coin_raw fill) then scan_events bt rest acc
            else (case convert_fill bt usr fill of
                    None \<Rightarrow> acc
                  | Some r \<Rightarrow> scan_events bt rest (acc @ [r])))
      else scan_events bt rest acc)"
    by (simp add: str_in_sublist)
  have "is_adl_event = (\<lambda>e. \<exists>f. payload e = Fill f \<and> direction f = ''Auto-Deleveraging'')"
    by (auto simp: is_adl_event_def fun_eq_iff split: event_type.splits)
  then show "adl_events evs =
     filter (\<lambda>e. \<exists>f. payload e = Fill f \<and> direction f = ''Auto-Deleveraging'') evs"
    by (simp add: adl_events_def)
qed

theorem adl_classification_witness:
  "extract_adl_fills boundary_parser [block_labelled] \<noteq> [] \<and>
   sublist ''Auto-Deleveraging''
     (direction_af (hd (extract_adl_fills boundary_parser [block_labelled]))) \<and>
   adl_events [labelled_event, zero_adl] = [zero_adl]"
proof -
  have ne: "extract_adl_fills boundary_parser [block_labelled] \<noteq> []"
    by (simp add: extract_defs block_labelled_def labelled_raw_def)
  then have "hd (extract_adl_fills boundary_parser [block_labelled])
               \<in> set (extract_adl_fills boundary_parser [block_labelled])"
    by simp
  with adl_classification [of boundary_parser "[block_labelled]"] have
    "sublist ''Auto-Deleveraging''
       (direction_af (hd (extract_adl_fills boundary_parser [block_labelled])))"
    by blast
  moreover have "adl_events [labelled_event, zero_adl] = [zero_adl]"
    by (simp add: adl_events_def is_adl_event_def labelled_event_def labelled_fill_def zero_adl_def)
  ultimately show ?thesis using ne by simp
qed

text \<open>
  A fill labelled \<open>Auto-Deleveraging (Short)\<close>: the label contains the words, the
  extractor returns the fill, STEP 4 of the reconstructor does not take it.
\<close>

theorem longer_label_not_taken_by_reconstructor:
  "sublist ''Auto-Deleveraging'' (direction labelled_fill) \<and>
   adl_events [labelled_event] = [] \<and>
   extract_adl_fills boundary_parser [block_labelled] \<noteq> []"
proof (intro conjI)
  show "sublist ''Auto-Deleveraging'' (direction labelled_fill)"
    by (simp add: str_in_sublist [symmetric] labelled_fill_def)
  show "adl_events [labelled_event] = []"
    by (simp add: adl_events_def is_adl_event_def labelled_event_def labelled_fill_def)
  show "extract_adl_fills boundary_parser [block_labelled] \<noteq> []"
    by (simp add: extract_defs block_labelled_def labelled_raw_def)
qed

section \<open>The window of the extractor\<close>

text \<open>
  C5. The extractor keeps exactly the lines whose parsed timestamp lies in the half-open
  interval from \<open>ADL_START\<close> to \<open>ADL_END\<close>: its result is what the lines in that interval
  contribute, in order, every returned fill carries a block time in the interval, a line
  stamped exactly at the start contributes its fills, and a line stamped exactly at the
  end contributes nothing.
\<close>

theorem extractor_window_half_open:
  "extract_adl_fills p ls = concat (map (line_fills p) (filter (spec_in_window p) ls)) \<and>
   (\<forall>r\<in>set (extract_adl_fills p ls).
      instant ADL_START \<le> instant (block_time r) \<and> instant (block_time r) < instant ADL_END) \<and>
   (\<forall>l bt. parsed_time p l = Some bt \<longrightarrow> instant bt = instant ADL_START \<longrightarrow>
      extract_adl_fills p [l] = line_fills p l) \<and>
   (\<forall>l bt. parsed_time p l = Some bt \<longrightarrow> instant bt = instant ADL_END \<longrightarrow>
      extract_adl_fills p [l] = [])"
proof (intro conjI)
  show "extract_adl_fills p ls = concat (map (line_fills p) (filter (spec_in_window p) ls))"
    by (rule extract_adl_fills_window)
  show "\<forall>r\<in>set (extract_adl_fills p ls).
      instant ADL_START \<le> instant (block_time r) \<and> instant (block_time r) < instant ADL_END"
    using extract_adl_fills_times by blast
  show "\<forall>l bt. parsed_time p l = Some bt \<longrightarrow> instant bt = instant ADL_START \<longrightarrow>
      extract_adl_fills p [l] = line_fills p l"
    by (simp add: extract_adl_fills_window spec_in_window_def window_instants)
  show "\<forall>l bt. parsed_time p l = Some bt \<longrightarrow> instant bt = instant ADL_END \<longrightarrow>
      extract_adl_fills p [l] = []"
    by (simp add: extract_adl_fills_window spec_in_window_def window_instants)
qed

theorem extractor_window_half_open_witness:
  "instant \<lparr>wall_micros = 1760130900000000, utcoffset = Some 0\<rparr> = instant ADL_START \<and>
   instant \<lparr>wall_micros = 1760131620000000, utcoffset = Some 0\<rparr> = instant ADL_END \<and>
   length (line_fills boundary_parser block_at_start) = 1 \<and>
   length (line_fills boundary_parser block_at_end) = 1 \<and>
   extract_adl_fills boundary_parser [block_at_start] = line_fills boundary_parser block_at_start \<and>
   extract_adl_fills boundary_parser [block_at_end] = []"
proof -
  have ps: "parsed_time boundary_parser block_at_start =
              Some \<lparr>wall_micros = 1760130900000000, utcoffset = Some 0\<rparr>"
    and pe: "parsed_time boundary_parser block_at_end =
              Some \<lparr>wall_micros = 1760131620000000, utcoffset = Some 0\<rparr>"
    by (simp_all add: block_at_start_def block_at_end_def parsed_time_boundaries)
  have i_start: "instant \<lparr>wall_micros = 1760130900000000, utcoffset = Some 0\<rparr> = instant ADL_START"
    and i_end: "instant \<lparr>wall_micros = 1760131620000000, utcoffset = Some 0\<rparr> = instant ADL_END"
    by (simp_all add: instant_aware window_instants)
  have ls: "length (line_fills boundary_parser block_at_start) = 1"
    and le: "length (line_fills boundary_parser block_at_end) = 1"
    by (simp_all add: line_fills_def block_at_start_def block_at_end_def parsed_time_boundaries
          events_of_def convert_fill_def plain_raw_def)
  from extractor_window_half_open [of boundary_parser "[]"] ps i_start
  have "extract_adl_fills boundary_parser [block_at_start] = line_fills boundary_parser block_at_start"
    by blast
  moreover from extractor_window_half_open [of boundary_parser "[]"] pe i_end
  have "extract_adl_fills boundary_parser [block_at_end] = []"
    by blast
  ultimately show ?thesis using i_start i_end ls le by simp
qed

section \<open>Positions left out of the unrealized PnL\<close>

text \<open>
  C6. A position whose size is zero, whose instrument has no last price or the last price
  zero, or whose entry price is not set or zero adds nothing to the account-wide
  unrealized PnL: the sum over the positions with such a position among them is the sum
  over the positions without it. The sum is a total function, and the loop does no
  arithmetic on such a position.
\<close>

theorem skipped_position_leaves_aggregate:
  assumes "size_pos p = 0 \<or> lp c = None \<or> lp c = Some 0 \<or>
           entry_price p = None \<or> entry_price p = Some 0"
  shows "sum_unrealized lp (xs @ (c, p) # ys) t = sum_unrealized lp (xs @ ys) t"
  using assms by (simp add: sum_unrealized_append unrealized_of_skipped)

theorem skipped_position_leaves_aggregate_witness:
  "entry_price position_Z = None \<and>
   sum_unrealized prices_XZ [(''Z'', position_Z), (''X'', position_X)] 0 =
     sum_unrealized prices_XZ [(''X'', position_X)] 0 \<and>
   sum_unrealized prices_XZ [(''X'', position_X)] 0 = - 20"
proof -
  have h: "entry_price position_Z = None"
    by (simp add: position_Z_def)
  then have "size_pos position_Z = 0 \<or> prices_XZ ''Z'' = None \<or> prices_XZ ''Z'' = Some 0 \<or>
             entry_price position_Z = None \<or> entry_price position_Z = Some 0"
    by simp
  with skipped_position_leaves_aggregate
         [where p = position_Z and lp = prices_XZ and c = "''Z''" and xs = "[]"
            and ys = "[(''X'', position_X)]" and t = 0]
  have "sum_unrealized prices_XZ [(''Z'', position_Z), (''X'', position_X)] 0 =
          sum_unrealized prices_XZ [(''X'', position_X)] 0"
    by simp
  moreover have "sum_unrealized prices_XZ [(''X'', position_X)] 0 = - 20"
    by (simp add: unrealized_of_def prices_XZ_def position_X_def)
  ultimately show ?thesis using h by simp
qed

section \<open>The guarded divisions\<close>



section \<open>Accounts no event refers to\<close>

text \<open>
  C8. An account of the initial snapshot that is the account of no event in the analysis
  window has, after the whole pass, the state the snapshot gave it: the same account
  value, positions and snapshot time.
\<close>

theorem unreferenced_account_unchanged:
  assumes "account_states u = Some a"
    and "u \<notin> user ` set (events_in_window all_events)"
  shows "working_states (reconstruct account_states all_events) u = Some a"
  using process_events_other [OF assms(2)] assms(1)
  by (simp add: reconstruct_def initial_state_def)

theorem unreferenced_account_unchanged_witness:
  "snapshot_A ''A'' \<noteq> None \<and>
   ''A'' \<notin> user ` set (events_in_window [zero_adl]) \<and>
   working_states (reconstruct snapshot_A [zero_adl]) ''A'' = snapshot_A ''A'' \<and>
   working_states (reconstruct snapshot_A [zero_adl]) ''B'' \<noteq> snapshot_A ''B''"
proof -
  obtain a where a: "snapshot_A ''A'' = Some a"
    by (simp add: snapshot_A_def)
  have h: "''A'' \<notin> user ` set (events_in_window [zero_adl])"
    by (simp add: window_zero_adl) (simp add: zero_adl_def)
  have "working_states (reconstruct snapshot_A [zero_adl]) ''B'' \<noteq> snapshot_A ''B''"
    by (simp add: replay_defs snapshot_A_def zero_adl_def)
  with unreferenced_account_unchanged
         [where account_states = snapshot_A and u = "''A''" and a = a
            and all_events = "[zero_adl]"] a h
  show ?thesis by simp
qed

section \<open>The analysis window of the reconstructor\<close>

text \<open>
  C9. The reconstructor keeps an event exactly when its timestamp lies in the closed
  interval from the snapshot time to the end time: an event stamped at either end is
  kept, one stamped before the snapshot time or after the end time is not. The end time,
  in milliseconds, is 21:27:00.000 UTC on 2025-10-10, the instant that ends the
  extractor's window.
\<close>

theorem events_in_window_closed:
  "set (events_in_window all_events) =
     {e \<in> set all_events. SNAPSHOT_TIME \<le> time e \<and> time e \<le> ADL_END_TIME} \<and>
   ADL_END_TIME * 1000 = instant (datetime_utc 2025 10 10 21 27 0) \<and>
   ADL_END_TIME * 1000 = instant ADL_END"
  by (auto simp: events_in_window_def ADL_END_TIME_def window_instants(2)
        window_instants(2) [unfolded ADL_END_def])

section \<open>One record for each forced-deleveraging fill\<close>






end
